theory Spec2Isabelle
  imports Complex_Main
begin

section \<open>Python values and exceptions\<close>

text \<open>
  Exceptions of \<^verbatim>\<open>validation_api.py\<close> are values: a function that may raise returns
  \<open>error + 'a\<close>, with \<open>Inl\<close> for the exception. \<open>Raised\<close> is an exception thrown by a
  collaborator that is not part of this file (the helpers of \<^verbatim>\<open>utilities.validation_utils\<close>),
  carrying the text \<^verbatim>\<open>str(e)\<close>.
\<close>

datatype error =
    HTTPException nat string
  | ValueError string
  | RuntimeError string
  | TypeError string
  | KeyError string
  | AttributeError string
  | JSONDecodeError
  | SystemExit nat
  | Raised string

subsection \<open>The builtin \<^verbatim>\<open>int(str)\<close>\<close>

text \<open>
  \<^verbatim>\<open>int(request.hash)\<close> parses a decimal literal: white space is stripped on both sides,
  one sign is allowed, the digits may be grouped by single underscores, leading zeros are
  allowed, and a literal of more than 4300 digits is refused. A string is a list of
  characters below 256; of these, the ones \<^verbatim>\<open>int\<close> strips are 9 to 13, 32, 133 and 160.
\<close>

definition py_isspace :: "char \<Rightarrow> bool" where
  "py_isspace c = ((of_char c :: nat) \<in> {9, 10, 11, 12, 13, 32, 133, 160})"

definition py_isdigit :: "char \<Rightarrow> bool" where
  "py_isdigit c = (48 \<le> (of_char c :: nat) \<and> (of_char c :: nat) \<le> 57)"

definition digit_value :: "char \<Rightarrow> nat" where
  "digit_value c = (of_char c :: nat) - 48"

definition py_strip :: "string \<Rightarrow> string" where
  "py_strip s = rev (dropWhile py_isspace (rev (dropWhile py_isspace s)))"

fun py_digits :: "nat \<Rightarrow> string \<Rightarrow> nat option" where
  "py_digits acc [] = Some acc"
| "py_digits acc [c] = (if py_isdigit c then Some (10 * acc + digit_value c) else None)"
| "py_digits acc (c # d # cs) =
     (if py_isdigit c then py_digits (10 * acc + digit_value c) (d # cs)
      else if c = CHR ''_'' \<and> py_isdigit d then py_digits (10 * acc + digit_value d) cs
      else None)"

definition py_unsigned :: "string \<Rightarrow> nat option" where
  "py_unsigned s =
     (case s of
        [] \<Rightarrow> None
      | c # cs \<Rightarrow>
          if \<not> py_isdigit c then None
          else if length (filter py_isdigit s) > 4300 then None
          else py_digits (digit_value c) cs)"

definition py_int :: "string \<Rightarrow> int option" where
  "py_int s =
     (case py_strip s of
        [] \<Rightarrow> None
      | c # cs \<Rightarrow>
          if c = CHR ''-'' then map_option (\<lambda>n. - int n) (py_unsigned cs)
          else if c = CHR ''+'' then map_option int (py_unsigned cs)
          else map_option int (py_unsigned (c # cs)))"

subsection \<open>Formatting an integer in an f-string\<close>

fun str_nat :: "nat \<Rightarrow> string" where
  "str_nat n =
     (if n < 10 then [''0123456789'' ! n]
      else str_nat (n div 10) @ [''0123456789'' ! (n mod 10)])"

definition str_int :: "int \<Rightarrow> string" where
  "str_int i = (if i < 0 then CHR ''-'' # str_nat (nat (- i)) else str_nat (nat i))"

section \<open>Python floats\<close>

text \<open>
  A Python \<^verbatim>\<open>float\<close> is an IEEE 754 double: \<open>Finite x\<close> is the double whose value is the
  rational \<open>x\<close>, \<open>Infinite negative\<close> an infinity, \<open>NaN\<close> the value that is not a number. The
  two zeros are one value here, and so are an integer below \<open>2^53\<close> and the double equal
  to it.
\<close>

datatype double = Finite rat | Infinite bool | NaN

text \<open>
  Rounding a rational to the nearest double, ties to the even significand. The exponent
  of \<open>a > 0\<close> is the \<open>e\<close> with \<open>2^e \<le> a < 2^(e + 1)\<close>, kept within -1022 (below it the
  doubles are subnormal and their spacing stays \<open>2^-1074\<close>) and 1024 (where the result has
  overflowed to an infinity); a double with that exponent is a multiple of \<open>2^(e - 52)\<close>.
\<close>

fun halvings :: "nat \<Rightarrow> rat \<Rightarrow> nat" where
  "halvings n a = (if n = 0 \<or> a < 2 then 0 else Suc (halvings (n - 1) (a / 2)))"

fun doublings :: "nat \<Rightarrow> rat \<Rightarrow> nat" where
  "doublings n a = (if n = 0 \<or> 1 \<le> a then 0 else Suc (doublings (n - 1) (2 * a)))"

definition exponent :: "rat \<Rightarrow> int" where
  "exponent a = (if 1 \<le> a then int (halvings 1024 a) else - int (doublings 1022 a))"

definition pow2 :: "int \<Rightarrow> rat" where
  "pow2 e = (if 0 \<le> e then of_int (2 ^ nat e) else 1 / of_int (2 ^ nat (- e)))"

definition round_half_even :: "rat \<Rightarrow> int" where
  "round_half_even r =
     (let f = \<lfloor>r\<rfloor>; d = r - of_int f
      in if d < 1 / 2 then f else if 1 / 2 < d then f + 1 else if even f then f else f + 1)"

definition round_double :: "rat \<Rightarrow> double" where
  "round_double x =
     (if x = 0 then Finite 0
      else
        (let a = \<bar>x\<bar>;
             quantum = pow2 (exponent a - 52);
             y = of_int (round_half_even (a / quantum)) * quantum
         in if pow2 1024 \<le> y then Infinite (x < 0)
            else Finite (if x < 0 then - y else y)))"

text \<open>
  \<^verbatim>\<open>a * b\<close> and \<^verbatim>\<open>a + b\<close> on floats: the exact result, rounded. A decimal literal such as
  \<^verbatim>\<open>0.82\<close> is \<open>round_double (82 / 100)\<close>.
\<close>

fun fmul :: "double \<Rightarrow> double \<Rightarrow> double" where
  "fmul (Finite a) (Finite b) = round_double (a * b)"
| "fmul NaN y = NaN"
| "fmul x NaN = NaN"
| "fmul (Infinite s) (Finite b) = (if b = 0 then NaN else Infinite (s \<noteq> (b < 0)))"
| "fmul (Finite a) (Infinite s) = (if a = 0 then NaN else Infinite (s \<noteq> (a < 0)))"
| "fmul (Infinite s) (Infinite t) = Infinite (s \<noteq> t)"

fun fadd :: "double \<Rightarrow> double \<Rightarrow> double" where
  "fadd (Finite a) (Finite b) = round_double (a + b)"
| "fadd NaN y = NaN"
| "fadd x NaN = NaN"
| "fadd (Infinite s) (Finite b) = Infinite s"
| "fadd (Finite a) (Infinite s) = Infinite s"
| "fadd (Infinite s) (Infinite t) = (if s = t then Infinite s else NaN)"

section \<open>Constants\<close>

definition QUALITATIVE_SCORE_WEIGHT :: double where
  "QUALITATIVE_SCORE_WEIGHT = round_double (82 / 100)"

definition MODEL_SIZE_SCORE_WEIGHT :: double where
  "MODEL_SIZE_SCORE_WEIGHT = round_double (6 / 100)"

definition LATENCY_SCORE_WEIGHT :: double where
  "LATENCY_SCORE_WEIGHT = round_double (6 / 100)"

definition VIBE_SCORE_WEIGHT :: double where
  "VIBE_SCORE_WEIGHT = round_double (6 / 100)"

definition MAX_MODEL_SIZE :: int where
  "MAX_MODEL_SIZE = 30 * 1024 * 1024 * 1024"

definition MIN_REPO_SIZE :: int where
  "MIN_REPO_SIZE = 10 * 1024 * 1024"

definition MAX_REPO_SIZE :: int where
  "MAX_REPO_SIZE = 80 * 1024 * 1024 * 1024"

definition EVAL_SCORE_PORT :: nat where
  "EVAL_SCORE_PORT = 8001"

definition VIBE_SCORE_PORT :: nat where
  "VIBE_SCORE_PORT = 8002"

definition chat_template_mappings :: "(string \<times> string) list" where
  "chat_template_mappings =
     [(''vicuna'', ''prompt_templates/vicuna_prompt_template.jinja''),
      (''chatml'', ''prompt_templates/chatml_prompt_template.jinja''),
      (''mistral'', ''prompt_templates/mistral_prompt_template.jinja''),
      (''zephyr'', ''prompt_templates/zephyr_prompt_template.jinja''),
      (''alpaca'', ''prompt_templates/alpaca_prompt_template.jinja''),
      (''llama2'', ''prompt_templates/llama2_prompt_template.jinja''),
      (''llama3'', ''prompt_templates/llama3_prompt_template.jinja'')]"

definition columns :: "string list" where
  "columns =
     [''hash'', ''repo_namespace'', ''repo_name'', ''chat_template_type'',
      ''model_size_score'', ''qualitative_score'', ''latency_score'', ''vibe_score'',
      ''total_score'', ''timestamp'', ''status'', ''notes'']"

section \<open>Data model\<close>

text \<open>
  A score is a float; a score cell that holds \<^verbatim>\<open>None\<close> is \<open>None\<close>. Time is a natural
  number of milliseconds.
\<close>

record EvaluateModelRequest =
  repo_namespace :: string
  repo_name :: string
  chat_template_type :: string
  hash :: string
  revision :: "string option"
  competition_id :: "string option"

text \<open>
  One row of the leaderboard \<^verbatim>\<open>DataFrame\<close>. The four identity columns carry the prefix
  \<open>entry_\<close> because the request has fields of the same names, and so does the column
  \<^verbatim>\<open>notes\<close>, whose name is reserved. A text cell that holds \<^verbatim>\<open>None\<close> is the empty string: the
  comparisons of the file do not tell them apart.
\<close>

record entry =
  entry_hash :: string
  entry_repo_namespace :: string
  entry_repo_name :: string
  entry_chat_template_type :: string
  model_size_score :: "double option"
  qualitative_score :: "double option"
  latency_score :: "double option"
  vibe_score :: "double option"
  total_score :: "double option"
  timestamp :: nat
  status :: string
  entry_notes :: string

text \<open>
  The dictionary returned by \<^verbatim>\<open>get_json_result\<close>: the five scores in the order
  \<^verbatim>\<open>model_size_score, qualitative_score, latency_score, vibe_score, total_score\<close>,
  then the status.
\<close>

type_synonym scores =
  "double option \<times> double option \<times> double option \<times> double option \<times> double option"

type_synonym json_result = "scores \<times> string"

text \<open>
  A \<^verbatim>\<open>requests.Response\<close>: \<open>content\<close> is the text an f-string shows for
  \<^verbatim>\<open>response.content\<close>; \<open>json\<close> is the decoded body, \<open>None\<close> when \<^verbatim>\<open>response.json()\<close>
  raises; a key bound to \<open>None\<close> is JSON \<^verbatim>\<open>null\<close>, any other value is the float of a JSON
  number. Score values other than numbers and \<^verbatim>\<open>null\<close> are outside the model.
\<close>

record response =
  status_code :: nat
  content :: string
  json :: "(string \<rightharpoonup> double option) option"

datatype post_result = Returned response | Failed string

text \<open>
  The collaborators the file calls but does not define. The helpers of
  \<^verbatim>\<open>utilities.validation_utils\<close> return a value or raise (\<open>Inl\<close>, with the text of the
  exception). A scoring service is the sequence of its answers to the successive POSTs of
  one job: the k-th POST takes \<open>fst\<close> milliseconds and returns a response or raises.
  \<open>final_update_failure\<close> is the text of the exception raised by the final leaderboard
  update of a job, if it raises.
\<close>

record env =
  regenerate_hash :: "string \<Rightarrow> string \<Rightarrow> string \<Rightarrow> string option \<Rightarrow> string + int"
  check_model_repo_size :: "string \<Rightarrow> string \<Rightarrow> string \<Rightarrow> string + int option"
  get_model_size :: "string \<Rightarrow> string \<Rightarrow> string + int option"
  eval_score_api :: "EvaluateModelRequest \<Rightarrow> nat \<Rightarrow> nat \<times> post_result"
  vibe_score_api :: "EvaluateModelRequest \<Rightarrow> nat \<Rightarrow> nat \<times> post_result"
  final_update_failure :: "EvaluateModelRequest \<Rightarrow> string option"

text \<open>
  The shared state: the leaderboard of the manager namespace, the rows last written to
  \<^verbatim>\<open>leaderboard.csv\<close>, the evaluation queue (\<open>None\<close> is the sentinel), the clock, and the
  ports that received a POST to \<^verbatim>\<open>/shutdown\<close>, oldest first.
\<close>

record system =
  leaderboard :: "entry list"
  leaderboard_file :: "entry list"
  evaluation_queue :: "EvaluateModelRequest option list"
  clock :: nat
  shutdown_posts :: "nat list"

section \<open>Leaderboard operations\<close>

text \<open>
  \<^verbatim>\<open>leaderboard.loc[leaderboard['hash'] == h, ...] = ...\<close> changes every row with that hash.
  Writing the file does not fail here, and \<^verbatim>\<open>update_leaderboard_status\<close>, which logs and
  swallows what its body raises, always does its update.
\<close>

definition loc_update :: "string \<Rightarrow> (entry \<Rightarrow> entry) \<Rightarrow> entry list \<Rightarrow> entry list" where
  "loc_update h f lb = map (\<lambda>r. if entry_hash r = h then f r else r) lb"

definition save_leaderboard :: "system \<Rightarrow> system" where
  "save_leaderboard s = s\<lparr>leaderboard_file := leaderboard s\<rparr>"

definition update_leaderboard_status :: "string \<Rightarrow> string \<Rightarrow> string \<Rightarrow> system \<Rightarrow> system" where
  "update_leaderboard_status h st nts s =
     save_leaderboard
       (s\<lparr>leaderboard :=
            loc_update h (\<lambda>r. if nts \<noteq> [] then r\<lparr>status := st, entry_notes := nts\<rparr>
                               else r\<lparr>status := st\<rparr>) (leaderboard s)\<rparr>)"

definition get_json_result :: "entry list \<Rightarrow> string \<Rightarrow> json_result option" where
  "get_json_result lb h =
     (case filter (\<lambda>r. entry_hash r = h) lb of
        [] \<Rightarrow> None
      | model_entry # _ \<Rightarrow>
          Some ((model_size_score model_entry, qualitative_score model_entry,
                 latency_score model_entry, vibe_score model_entry,
                 total_score model_entry),
                status model_entry))"

section \<open>The submission gateway: \<^verbatim>\<open>evaluate_model\<close>\<close>

text \<open>Lines 319 to 332: the row of a new submission, every score at the sentinel -1.\<close>

definition new_entry :: "EvaluateModelRequest \<Rightarrow> nat \<Rightarrow> entry" where
  "new_entry request now =
     \<lparr>entry_hash = hash request,
      entry_repo_namespace = repo_namespace request,
      entry_repo_name = repo_name request,
      entry_chat_template_type = chat_template_type request,
      model_size_score = Some (Finite (- 1)),
      qualitative_score = Some (Finite (- 1)),
      latency_score = Some (Finite (- 1)),
      vibe_score = Some (Finite (- 1)),
      total_score = Some (Finite (- 1)),
      timestamp = now,
      status = ''QUEUED'',
      entry_notes = []\<rparr>"

text \<open>
  The block every failed check ends with: under the lock, set the row to FAILED with the
  note, and return the row's payload.
\<close>

definition fail_and_return ::
  "string \<Rightarrow> string \<Rightarrow> system \<Rightarrow> (error + json_result option) \<times> system" where
  "fail_and_return h failure_notes s =
     (let s' = update_leaderboard_status h ''FAILED'' failure_notes s
      in (Inr (get_json_result (leaderboard s') h), s'))"

text \<open>Lines 340 to 394: the checks on a freshly inserted row, then the queue.\<close>

definition admission_checks ::
  "env \<Rightarrow> EvaluateModelRequest \<Rightarrow> system \<Rightarrow> (error + json_result option) \<times> system" where
  "admission_checks e request s =
     (if map_of chat_template_mappings (chat_template_type request) = None
      then fail_and_return (hash request)
             (''Chat template type not supported: '' @ chat_template_type request) s
      else
        (case check_model_repo_size e (hash request) (repo_namespace request) (repo_name request) of
          Inl msg \<Rightarrow>
            fail_and_return (hash request) (''Error checking model repo size: '' @ msg) s
        | Inr None \<Rightarrow>
            fail_and_return (hash request)
              ''Error checking model repo size. Make sure the model repository exists and is accessible.'' s
        | Inr (Some model_repo_size) \<Rightarrow>
            if model_repo_size > MAX_REPO_SIZE \<or> model_repo_size < MIN_REPO_SIZE
            then fail_and_return (hash request)
                   (''Model repo size is not up to requirments: '' @ str_int model_repo_size
                    @ '' bytes. Should be less than '' @ str_int MAX_REPO_SIZE
                    @ '' bytes and greater than '' @ str_int MIN_REPO_SIZE @ '' bytes'') s
            else
              (case get_model_size e (repo_namespace request) (repo_name request) of
                Inl msg \<Rightarrow> (Inl (Raised msg), s)
              | Inr None \<Rightarrow>
                  fail_and_return (hash request)
                    ''Error getting model size. Make sure the model.index.safetensors.json file exists in the model repository. And it has the metadata->total_size field.'' s
              | Inr (Some model_size) \<Rightarrow>
                  if model_size div 4 > MAX_MODEL_SIZE
                  then fail_and_return (hash request)
                         (''Model size is too large: '' @ str_int model_size
                          @ '' bytes. Should be less than '' @ str_int MAX_MODEL_SIZE @ '' bytes'') s
                  else
                    (let s' = s\<lparr>evaluation_queue := evaluation_queue s @ [Some request]\<rparr>
                     in (Inr (get_json_result (leaderboard s') (hash request)), s')))))"

text \<open>
  Lines 306 to 338, then the checks. The new row is stamped with the clock. The texts of
  the exceptions of builtins are abridged.
\<close>

definition evaluate_model ::
  "env \<Rightarrow> EvaluateModelRequest \<Rightarrow> system \<Rightarrow> (error + json_result option) \<times> system" where
  "evaluate_model e request s =
     (case py_int (hash request) of
        None \<Rightarrow>
          (Inl (ValueError (''invalid literal for int() with base 10: '' @ hash request)), s)
      | Some n \<Rightarrow>
          (case regenerate_hash e (repo_namespace request) (repo_name request)
                  (chat_template_type request) (competition_id request) of
             Inl msg \<Rightarrow> (Inl (Raised msg), s)
           | Inr fingerprint \<Rightarrow>
               if n \<noteq> fingerprint
               then (Inl (HTTPException 400 ''Hash does not match the model details''), s)
               else
                 (case get_json_result (leaderboard s) (hash request) of
                    Some current_status \<Rightarrow> (Inr (Some current_status), s)
                  | None \<Rightarrow>
                      admission_checks e request
                        (save_leaderboard
                           (s\<lparr>leaderboard := new_entry request (clock s) # leaderboard s\<rparr>)))))"

section \<open>The evaluation worker\<close>

subsection \<open>Calling a scoring service\<close>

text \<open>A response is true in a condition when its status is not a client or server error.\<close>

definition response_ok :: "response \<Rightarrow> bool" where
  "response_ok r = (\<not> (400 \<le> status_code r \<and> status_code r < 600))"

text \<open>
  The text written when the deadline has passed: the content of the response held in
  the loop's variable if there is one and it is true, the text of the exception otherwise.
\<close>

definition error_string :: "string \<Rightarrow> response option \<Rightarrow> string \<Rightarrow> string" where
  "error_string api held e =
     ''Error calling '' @ api @ '' API with message: ''
     @ (case held of
          Some r \<Rightarrow> if response_ok r then content r else e
        | None \<Rightarrow> e)"

text \<open>
  The loop of lines 155 to 177 (and 204 to 225): \<open>now\<close> is the clock when the POST number
  \<open>i\<close> is sent, \<open>held\<close> the response received last. It ends with the response of status 200,
  or with the error text once an attempt has failed more than 30 seconds after
  \<open>start_time\<close>; otherwise it sleeps one second and sends the next POST.
\<close>

function retry_loop ::
  "string \<Rightarrow> (nat \<Rightarrow> nat \<times> post_result) \<Rightarrow> nat \<Rightarrow> nat \<Rightarrow> nat \<Rightarrow> response option
   \<Rightarrow> (string + response) \<times> nat" where
  "retry_loop api post start_time now i held =
     (let t = now + fst (post i) in
      case snd (post i) of
        Returned r \<Rightarrow>
          if status_code r = 200 then (Inr r, t)
          else if t - start_time > 30000
          then (Inl (error_string api (Some r)
                       (''Error calling '' @ api @ '' API: '' @ content r)), t)
          else retry_loop api post start_time (t + 1000) (Suc i) (Some r)
      | Failed e \<Rightarrow>
          if t - start_time > 30000 then (Inl (error_string api held e), t)
          else retry_loop api post start_time (t + 1000) (Suc i) held)"
  by pat_completeness auto
termination
  by (relation "measure (\<lambda>(api, post, start_time, now, i, held). start_time + 31001 - now)") auto

text \<open>
  The POST to \<^verbatim>\<open>/shutdown\<close> of a scoring service, with a timeout of one second; what comes
  back, or that nothing does, is ignored.
\<close>

definition post_shutdown :: "nat \<Rightarrow> system \<Rightarrow> system" where
  "post_shutdown port s = s\<lparr>shutdown_posts := shutdown_posts s @ [port]\<rparr>"

text \<open>
  One scoring phase, lines 153 to 185 (and 201 to 232): the loop, then on failure the row
  is set to FAILED, the service is told to shut down and the job raises; on success the
  service is told to shut down and the response is kept.
\<close>

definition call_scoring_api ::
  "string \<Rightarrow> nat \<Rightarrow> (nat \<Rightarrow> nat \<times> post_result) \<Rightarrow> string \<Rightarrow> system
   \<Rightarrow> (error + response) \<times> system" where
  "call_scoring_api api port post h s =
     (case retry_loop api post (clock s) (clock s) 0 None of
        (Inl err, t) \<Rightarrow>
          (Inl (RuntimeError err),
           post_shutdown port (update_leaderboard_status h ''FAILED'' err (s\<lparr>clock := t\<rparr>)))
      | (Inr r, t) \<Rightarrow> (Inr r, post_shutdown port (s\<lparr>clock := t\<rparr>)))"

subsection \<open>The job\<close>

text \<open>\<^verbatim>\<open>float(x)\<close> of a number or of \<^verbatim>\<open>None\<close>.\<close>

definition py_float :: "double option \<Rightarrow> error + double" where
  "py_float v =
     (case v of
        None \<Rightarrow> Inl (TypeError ''float() argument must be a string or a real number, not NoneType'')
      | Some x \<Rightarrow> Inr x)"

text \<open>
  Lines 187 to 199. The three values read from the response are returned as the Python
  variables \<^verbatim>\<open>eval_score, latency_score, model_size_score\<close> (the last two are \<open>latency\<close>
  and \<open>model_size\<close> here, the longer names being columns). The leaderboard of the
  namespace changes only at the assignment of line 198, so an exception before it leaves
  the state as it was.
\<close>

definition write_partial_scores ::
  "response \<Rightarrow> string \<Rightarrow> system
   \<Rightarrow> (error + double option \<times> double option \<times> double option) \<times> system" where
  "write_partial_scores eval_score_response h s =
     (case json eval_score_response of
        None \<Rightarrow> (Inl JSONDecodeError, s)
      | Some eval_score_data \<Rightarrow>
      (case eval_score_data ''eval_score'' of
        None \<Rightarrow> (Inl (KeyError ''eval_score''), s)
      | Some eval_score \<Rightarrow>
      (case eval_score_data ''latency_score'' of
        None \<Rightarrow> (Inl (KeyError ''latency_score''), s)
      | Some latency \<Rightarrow>
      (case eval_score_data ''model_size_score'' of
        None \<Rightarrow> (Inl (KeyError ''model_size_score''), s)
      | Some model_size \<Rightarrow>
      (case py_float model_size of
        Inl err \<Rightarrow> (Inl err, s)
      | Inr m \<Rightarrow>
      (case py_float eval_score of
        Inl err \<Rightarrow> (Inl err, s)
      | Inr q \<Rightarrow>
      (case py_float latency of
        Inl err \<Rightarrow> (Inl err, s)
      | Inr l \<Rightarrow>
          (Inr (eval_score, latency, model_size),
           save_leaderboard
             (s\<lparr>leaderboard :=
                  loc_update h
                    (\<lambda>r. r\<lparr>model_size_score := Some m, qualitative_score := Some q,
                            latency_score := Some l,
                            entry_notes := ''Now computing vibe score''\<rparr>)
                    (leaderboard s)\<rparr>)))))))))"

text \<open>Line 234: \<^verbatim>\<open>vibe_score_response.json()["vibe_score"]\<close>.\<close>

definition read_vibe_score :: "response \<Rightarrow> error + double option" where
  "read_vibe_score vibe_score_response =
     (case json vibe_score_response of
        None \<Rightarrow> Inl JSONDecodeError
      | Some data \<Rightarrow>
          (case data ''vibe_score'' of
             None \<Rightarrow> Inl (KeyError ''vibe_score'')
           | Some vibe \<Rightarrow> Inr vibe))"

text \<open>Lines 239 to 242, in float arithmetic, summed in the order of the lines.\<close>

definition compute_total_score :: "double \<Rightarrow> double \<Rightarrow> double \<Rightarrow> double \<Rightarrow> double" where
  "compute_total_score model_size eval_score latency vibe =
     fadd
       (fadd
          (fadd (fmul model_size MODEL_SIZE_SCORE_WEIGHT)
                (fmul eval_score QUALITATIVE_SCORE_WEIGHT))
          (fmul latency LATENCY_SCORE_WEIGHT))
       (fmul vibe VIBE_SCORE_WEIGHT)"

text \<open>
  \<^verbatim>\<open>update_leaderboard_status\<close> as Python calls it, with whatever object is passed for
  \<^verbatim>\<open>namespace\<close>: line 274 reads \<^verbatim>\<open>namespace.leaderboard\<close> before the \<^verbatim>\<open>try\<close> of the function
  begins, so a string there raises out of the function.
\<close>

datatype py_object = Namespace | Str string

definition update_leaderboard_status_with ::
  "py_object \<Rightarrow> string \<Rightarrow> string \<Rightarrow> string \<Rightarrow> system \<Rightarrow> error + system" where
  "update_leaderboard_status_with namespace h st nts s =
     (case namespace of
        Namespace \<Rightarrow> Inr (update_leaderboard_status h st nts s)
      | Str text \<Rightarrow> Inl (AttributeError ''str object has no attribute leaderboard''))"

text \<open>
  Lines 244 to 270. The update is not saved to the file here. When it raises, the handler
  calls \<^verbatim>\<open>update_leaderboard_status(request.hash, "FAILED", failure_reason)\<close>: three
  arguments, so \<^verbatim>\<open>namespace\<close> is the string \<^verbatim>\<open>request.hash\<close>, \<^verbatim>\<open>hash\<close> is \<^verbatim>\<open>"FAILED"\<close>,
  \<^verbatim>\<open>status\<close> is the failure text and \<^verbatim>\<open>notes\<close> is empty.
\<close>

definition final_update ::
  "env \<Rightarrow> EvaluateModelRequest \<Rightarrow> double \<times> double \<times> double \<times> double \<times> double
   \<Rightarrow> system \<Rightarrow> (error + double \<times> double \<times> double \<times> double \<times> double) \<times> system" where
  "final_update e request result s =
     (case result of (m, q, l, v, t) \<Rightarrow>
        (case final_update_failure e request of
           None \<Rightarrow>
             (Inr result,
              s\<lparr>leaderboard :=
                   loc_update (hash request)
                     (\<lambda>r. r\<lparr>model_size_score := Some m, qualitative_score := Some q,
                             latency_score := Some l, vibe_score := Some v,
                             total_score := Some t, status := ''COMPLETED'',
                             entry_notes := []\<rparr>)
                     (leaderboard s)\<rparr>)
         | Some failure_reason \<Rightarrow>
             (case update_leaderboard_status_with (Str (hash request)) ''FAILED''
                     failure_reason [] s of
                Inl err \<Rightarrow> (Inl err, s)
              | Inr s' \<Rightarrow>
                  (Inl (RuntimeError (''Error updating leaderboard: '' @ failure_reason)), s'))))"

text \<open>
  The job, lines 136 to 270. The result is the dictionary
  \<^verbatim>\<open>model_size_score, qualitative_score, latency_score, vibe_score, total_score\<close>.
\<close>

definition evaluate_model_logic ::
  "env \<Rightarrow> EvaluateModelRequest \<Rightarrow> system
   \<Rightarrow> (error + double \<times> double \<times> double \<times> double \<times> double) \<times> system" where
  "evaluate_model_logic e request s0 =
     (if \<not> list_ex (\<lambda>r. entry_hash r = hash request) (leaderboard s0)
      then (Inl (ValueError (''Model '' @ hash request @ '' not found in the leaderboard'')), s0)
      else
        (let s1 = update_leaderboard_status (hash request) ''RUNNING''
                    ''Model evaluation in progress'' s0 in
         case call_scoring_api ''eval_score'' EVAL_SCORE_PORT (eval_score_api e request)
                (hash request) s1 of
           (Inl err, s2) \<Rightarrow> (Inl err, s2)
         | (Inr eval_score_response, s2) \<Rightarrow>
         (case write_partial_scores eval_score_response (hash request) s2 of
           (Inl err, s3) \<Rightarrow> (Inl err, s3)
         | (Inr (eval_score, latency, model_size), s3) \<Rightarrow>
         (case call_scoring_api ''vibe_score'' VIBE_SCORE_PORT (vibe_score_api e request)
                (hash request) s3 of
           (Inl err, s4) \<Rightarrow> (Inl err, s4)
         | (Inr vibe_score_response, s4) \<Rightarrow>
         (case read_vibe_score vibe_score_response of
           Inl err \<Rightarrow> (Inl err, s4)
         | Inr vibe \<Rightarrow>
         (case (model_size, eval_score, latency, vibe) of
           (Some m, Some q, Some l, Some v) \<Rightarrow>
             final_update e request (m, q, l, v, compute_total_score m q l v) s4
         | _ \<Rightarrow>
             (Inl (HTTPException 500 ''Error calculating scores, one or more scores are None''),
              s4)))))))"

text \<open>
  The loop of \<^verbatim>\<open>model_evaluation_worker\<close> over the items of the queue: an empty queue
  blocks it, the sentinel ends it, and an exception of a job is caught and logged. The
  result tells whether the loop was left, and lists the exceptions logged.
\<close>

fun worker_loop ::
  "env \<Rightarrow> EvaluateModelRequest option list \<Rightarrow> system \<Rightarrow> bool \<times> error list \<times> system" where
  "worker_loop e [] s = (False, [], s\<lparr>evaluation_queue := []\<rparr>)"
| "worker_loop e (None # q) s = (True, [], s\<lparr>evaluation_queue := q\<rparr>)"
| "worker_loop e (Some request # q) s =
     (case evaluate_model_logic e request (s\<lparr>evaluation_queue := q\<rparr>) of
        (Inl err, s') \<Rightarrow>
          (case worker_loop e q s' of (left, errs, s'') \<Rightarrow> (left, err # errs, s''))
      | (Inr result, s') \<Rightarrow> worker_loop e q s')"

definition model_evaluation_worker :: "env \<Rightarrow> system \<Rightarrow> bool \<times> error list \<times> system" where
  "model_evaluation_worker e s = worker_loop e (evaluation_queue s) s"

section \<open>Startup and shutdown\<close>

text \<open>
  Lines 447 to 467 on the header of an existing file. \<^verbatim>\<open>read_csv\<close> is called with
  \<^verbatim>\<open>parse_dates=['timestamp']\<close> and raises when that column is missing.
\<close>

definition read_csv :: "string list \<Rightarrow> error + string list" where
  "read_csv header =
     (if ''timestamp'' \<notin> set header
      then Inl (ValueError ''Missing column provided to parse_dates: timestamp'')
      else Inr header)"

definition startup_load :: "string list \<Rightarrow> error + string list" where
  "startup_load header =
     (case read_csv header of
        Inl err \<Rightarrow> Inl err
      | Inr leaderboard_columns \<Rightarrow>
          if \<not> list_all (\<lambda>col. col \<in> set leaderboard_columns) columns
          then Inl (SystemExit 1)
          else Inr leaderboard_columns)"

text \<open>
  The \<^verbatim>\<open>finally\<close> block, lines 482 to 508, entered while the worker waits for an item:
  the queue is emptied, the QUEUED rows are dropped and the file is written, the sentinel
  is queued and the worker joined, then the RUNNING rows are dropped and the file is
  written again.
\<close>

definition shutdown :: "env \<Rightarrow> system \<Rightarrow> system" where
  "shutdown e s0 =
     (let s1 = s0\<lparr>evaluation_queue := []\<rparr>;
          s2 = save_leaderboard
                 (s1\<lparr>leaderboard := filter (\<lambda>r. status r \<noteq> ''QUEUED'') (leaderboard s1)\<rparr>);
          s3 = s2\<lparr>evaluation_queue := evaluation_queue s2 @ [None]\<rparr>;
          s4 = snd (snd (model_evaluation_worker e s3))
      in save_leaderboard
           (s4\<lparr>leaderboard := filter (\<lambda>r. status r \<noteq> ''RUNNING'') (leaderboard s4)\<rparr>))"

section \<open>The timeline of a scoring phase\<close>

text \<open>
  What the loop of a phase that starts at \<open>start\<close> does if it gets as far as the POST
  number \<open>i\<close>: the clock when that POST is sent (one second after the one before has
  returned) and when it returns, and the response the loop's variable holds before it.
  \<open>succeeded\<close> is the test that ends the loop; \<open>exception_text\<close> is the text of the
  exception the loop catches after any other attempt.
\<close>

fun send_time :: "(nat \<Rightarrow> nat \<times> post_result) \<Rightarrow> nat \<Rightarrow> nat \<Rightarrow> nat" where
  "send_time post start 0 = start"
| "send_time post start (Suc i) = send_time post start i + fst (post i) + 1000"

definition return_time :: "(nat \<Rightarrow> nat \<times> post_result) \<Rightarrow> nat \<Rightarrow> nat \<Rightarrow> nat" where
  "return_time post start i = send_time post start i + fst (post i)"

fun held_before :: "(nat \<Rightarrow> nat \<times> post_result) \<Rightarrow> nat \<Rightarrow> response option" where
  "held_before post 0 = None"
| "held_before post (Suc i) =
     (case snd (post i) of Returned r \<Rightarrow> Some r | Failed e \<Rightarrow> held_before post i)"

definition succeeded :: "post_result \<Rightarrow> bool" where
  "succeeded res = (case res of Returned r \<Rightarrow> status_code r = 200 | Failed e \<Rightarrow> False)"


section \<open>Example inputs\<close>

text \<open>
  A stand-in for the collaborators: every submission has the fingerprint 12, a
  repository of 50 MiB and a declared size of 16 GiB; the first scoring service refuses
  the connection 29 times, one second apart, and then answers; the second answers at once.
\<close>

definition example_env :: env where
  "example_env =
     \<lparr>regenerate_hash = (\<lambda>namespace name chat_template competition. Inr 12),
      check_model_repo_size = (\<lambda>h namespace name. Inr (Some (50 * 1024 * 1024))),
      get_model_size = (\<lambda>namespace name. Inr (Some (16 * 1024 * 1024 * 1024))),
      eval_score_api =
        (\<lambda>request k.
           if k < 29 then (0, Failed ''connection refused'')
           else (0, Returned
                      \<lparr>status_code = 200, content = ''scores'',
                       json = Some (map_of [(''eval_score'', Some (Finite (1 / 2))),
                                            (''latency_score'', Some (round_double (4 / 5))),
                                            (''model_size_score'', Some (Finite 1))])\<rparr>)),
      vibe_score_api =
        (\<lambda>request k.
           (0, Returned \<lparr>status_code = 200, content = ''vibe'',
                         json = Some (map_of [(''vibe_score'', Some (round_double (9 / 10)))])\<rparr>)),
      final_update_failure = (\<lambda>request. None)\<rparr>"

definition example_request :: EvaluateModelRequest where
  "example_request =
     \<lparr>repo_namespace = ''org'', repo_name = ''model'', chat_template_type = ''chatml'',
      hash = ''12'', revision = Some ''main'', competition_id = Some ''d1''\<rparr>"

definition example_system :: system where
  "example_system =
     \<lparr>leaderboard = [], leaderboard_file = [], evaluation_queue = [], clock = 0,
      shutdown_posts = []\<rparr>"

text \<open>A row of the example submission under another hash and status.\<close>

definition example_row :: "string \<Rightarrow> string \<Rightarrow> entry" where
  "example_row h st = (new_entry (example_request\<lparr>hash := h\<rparr>) 0)\<lparr>status := st\<rparr>"

text \<open>The store after the example submission was accepted.\<close>

definition example_queued :: system where
  "example_queued =
     \<lparr>leaderboard = [new_entry example_request 0],
      leaderboard_file = [new_entry example_request 0],
      evaluation_queue = [Some example_request], clock = 0, shutdown_posts = []\<rparr>"


definition slow_env :: env where
  "slow_env =
     example_env
       \<lparr>eval_score_api :=
          (\<lambda>request k.
             (45000, Returned
                       \<lparr>status_code = 200, content = ''scores'',
                        json = Some (map_of [(''eval_score'', Some (Finite (1 / 2))),
                                             (''latency_score'', Some (round_double (4 / 5))),
                                             (''model_size_score'', Some (Finite 1))])\<rparr>))\<rparr>"


definition vibe_null_env :: env where
  "vibe_null_env =
     example_env
       \<lparr>vibe_score_api :=
          (\<lambda>request k. (0, Returned \<lparr>status_code = 200, content = ''vibe'',
                                      json = Some (map_of [(''vibe_score'', None)])\<rparr>))\<rparr>"

definition update_fails_env :: env where
  "update_fails_env = example_env\<lparr>final_update_failure := (\<lambda>request. Some ''connection lost'')\<rparr>"

section \<open>Basic facts\<close>

declare str_nat.simps [simp del]
declare retry_loop.simps [simp del]
declare halvings.simps [simp del]
declare doublings.simps [simp del]

lemma loc_update_fresh: "\<forall>r\<in>set lb. entry_hash r \<noteq> h \<Longrightarrow> loc_update h f lb = lb"
  by (induction lb) (simp_all add: loc_update_def)

lemma get_json_result_None_iff:
  "get_json_result lb h = None \<longleftrightarrow> (\<forall>r\<in>set lb. entry_hash r \<noteq> h)"
proof -
  have "get_json_result lb h = None \<longleftrightarrow> filter (\<lambda>r. entry_hash r = h) lb = []"
    by (simp add: get_json_result_def split: list.splits)
  then show ?thesis
    by (simp add: filter_empty_conv)
qed

lemma update_leaderboard_status_simps:
  "leaderboard (update_leaderboard_status h st nts s) =
     loc_update h (\<lambda>r. if nts \<noteq> [] then r\<lparr>status := st, entry_notes := nts\<rparr>
                        else r\<lparr>status := st\<rparr>) (leaderboard s)"
  "leaderboard_file (update_leaderboard_status h st nts s) =
     leaderboard (update_leaderboard_status h st nts s)"
  "evaluation_queue (update_leaderboard_status h st nts s) = evaluation_queue s"
  "clock (update_leaderboard_status h st nts s) = clock s"
  "shutdown_posts (update_leaderboard_status h st nts s) = shutdown_posts s"
  by (simp_all add: update_leaderboard_status_def save_leaderboard_def)

lemma py_int_12: "py_int ''12'' = Some 12"
  by (simp add: py_int_def py_strip_def py_isspace_def py_unsigned_def py_isdigit_def
      digit_value_def)

lemma py_int_13: "py_int ''13'' = Some 13"
  by (simp add: py_int_def py_strip_def py_isspace_def py_unsigned_def py_isdigit_def
      digit_value_def)

section \<open>The fingerprint check\<close>

lemma mismatch_untouched:
  assumes "regenerate_hash e (repo_namespace request) (repo_name request)
             (chat_template_type request) (competition_id request) = Inr fp"
    and "py_int (hash request) \<noteq> Some fp"
  shows "evaluate_model e request s =
           (Inl (case py_int (hash request) of
                   None \<Rightarrow> ValueError (''invalid literal for int() with base 10: ''
                                        @ hash request)
                 | Some n \<Rightarrow> HTTPException 400 ''Hash does not match the model details''), s)"
  using assms by (simp add: evaluate_model_def split: option.splits)

lemma fail_and_return_rows:
  "r' \<in> set (leaderboard (snd (fail_and_return h nts s))) \<Longrightarrow>
     \<exists>r\<in>set (leaderboard s). entry_hash r' = entry_hash r
        \<and> entry_repo_namespace r' = entry_repo_namespace r
        \<and> entry_repo_name r' = entry_repo_name r
        \<and> entry_chat_template_type r' = entry_chat_template_type r"
  by (auto simp: fail_and_return_def update_leaderboard_status_simps loc_update_def Let_def
      split: if_splits)

lemma admission_checks_rows:
  "r' \<in> set (leaderboard (snd (admission_checks e request s))) \<Longrightarrow>
     \<exists>r\<in>set (leaderboard s). entry_hash r' = entry_hash r
        \<and> entry_repo_namespace r' = entry_repo_namespace r
        \<and> entry_repo_name r' = entry_repo_name r
        \<and> entry_chat_template_type r' = entry_chat_template_type r"
  unfolding admission_checks_def
  by (auto split: if_splits sum.splits option.splits dest: fail_and_return_rows simp: Let_def)

lemma evaluate_model_rows:
  assumes "r' \<in> set (leaderboard (snd (evaluate_model e request s)))"
  shows "(\<exists>r\<in>set (leaderboard s). entry_hash r' = entry_hash r
            \<and> entry_repo_namespace r' = entry_repo_namespace r
            \<and> entry_repo_name r' = entry_repo_name r
            \<and> entry_chat_template_type r' = entry_chat_template_type r)
         \<or> (entry_hash r' = hash request
            \<and> entry_repo_namespace r' = repo_namespace request
            \<and> entry_repo_name r' = repo_name request
            \<and> entry_chat_template_type r' = chat_template_type request
            \<and> (\<exists>fp. regenerate_hash e (repo_namespace request) (repo_name request)
                       (chat_template_type request) (competition_id request) = Inr fp
                     \<and> py_int (hash request) = Some fp))"
proof (cases "py_int (hash request)")
  case None
  with assms show ?thesis by (auto simp: evaluate_model_def)
next
  case (Some n)
  show ?thesis
  proof (cases "regenerate_hash e (repo_namespace request) (repo_name request)
                  (chat_template_type request) (competition_id request)")
    case (Inl msg)
    with Some assms show ?thesis by (auto simp: evaluate_model_def)
  next
    case (Inr fp)
    show ?thesis
    proof (cases "n = fp \<and> get_json_result (leaderboard s) (hash request) = None")
      case False
      with Some Inr assms show ?thesis
        by (auto simp: evaluate_model_def split: if_splits option.splits)
    next
      case True
      with Some Inr assms have
        "r' \<in> set (leaderboard (snd (admission_checks e request
                 (save_leaderboard
                    (s\<lparr>leaderboard := new_entry request (clock s) # leaderboard s\<rparr>)))))"
        by (simp add: evaluate_model_def)
      from admission_checks_rows [OF this] True Some Inr show ?thesis
        by (auto simp: save_leaderboard_def new_entry_def)
    qed
  qed
qed

text \<open>
  C2. A submission whose hash is not the recomputed fingerprint is refused before the
  store is touched: the call raises (the validation error of status 400 when the hash is
  an integer literal, the error of \<^verbatim>\<open>int\<close> when it is not one) and the leaderboard, the
  file and the queue are as before. Hence, if the hash of every stored row is the
  fingerprint of the row's columns (for some competition, which a row does not store),
  this is still so after any submission.
\<close>

theorem fingerprint_validation:
  "(regenerate_hash e (repo_namespace request) (repo_name request)
      (chat_template_type request) (competition_id request) = Inr fp
    \<and> py_int (hash request) \<noteq> Some fp
    \<longrightarrow> evaluate_model e request s =
          (Inl (case py_int (hash request) of
                  None \<Rightarrow> ValueError (''invalid literal for int() with base 10: ''
                                       @ hash request)
                | Some n \<Rightarrow> HTTPException 400 ''Hash does not match the model details''), s))
   \<and> ((\<forall>r\<in>set (leaderboard s).
          \<exists>c fp'. regenerate_hash e (entry_repo_namespace r) (entry_repo_name r)
                     (entry_chat_template_type r) c = Inr fp'
                   \<and> py_int (entry_hash r) = Some fp')
       \<longrightarrow> (\<forall>r\<in>set (leaderboard (snd (evaluate_model e request s))).
              \<exists>c fp'. regenerate_hash e (entry_repo_namespace r) (entry_repo_name r)
                         (entry_chat_template_type r) c = Inr fp'
                       \<and> py_int (entry_hash r) = Some fp'))"
proof (intro conjI impI ballI)
  assume "regenerate_hash e (repo_namespace request) (repo_name request)
            (chat_template_type request) (competition_id request) = Inr fp
          \<and> py_int (hash request) \<noteq> Some fp"
  then show "evaluate_model e request s =
          (Inl (case py_int (hash request) of
                  None \<Rightarrow> ValueError (''invalid literal for int() with base 10: ''
                                       @ hash request)
                | Some n \<Rightarrow> HTTPException 400 ''Hash does not match the model details''), s)"
    using mismatch_untouched by blast
next
  fix r'
  assume inv: "\<forall>r\<in>set (leaderboard s).
          \<exists>c fp'. regenerate_hash e (entry_repo_namespace r) (entry_repo_name r)
                     (entry_chat_template_type r) c = Inr fp'
                   \<and> py_int (entry_hash r) = Some fp'"
    and mem: "r' \<in> set (leaderboard (snd (evaluate_model e request s)))"
  from evaluate_model_rows [OF mem]
  show "\<exists>c fp'. regenerate_hash e (entry_repo_namespace r') (entry_repo_name r')
                   (entry_chat_template_type r') c = Inr fp'
                 \<and> py_int (entry_hash r') = Some fp'"
  proof
    assume "\<exists>r\<in>set (leaderboard s). entry_hash r' = entry_hash r
            \<and> entry_repo_namespace r' = entry_repo_namespace r
            \<and> entry_repo_name r' = entry_repo_name r
            \<and> entry_chat_template_type r' = entry_chat_template_type r"
    with inv show ?thesis by fastforce
  next
    assume "entry_hash r' = hash request
            \<and> entry_repo_namespace r' = repo_namespace request
            \<and> entry_repo_name r' = repo_name request
            \<and> entry_chat_template_type r' = chat_template_type request
            \<and> (\<exists>fp. regenerate_hash e (repo_namespace request) (repo_name request)
                       (chat_template_type request) (competition_id request) = Inr fp
                     \<and> py_int (hash request) = Some fp)"
    then show ?thesis by auto
  qed
qed

text \<open>
  On a store that holds the row of the submission with the hash 12, the hash 13 for the
  same submission is refused with the status 400 and the store is as before.
\<close>

theorem fingerprint_validation_witness:
  "evaluate_model example_env (example_request\<lparr>hash := ''13''\<rparr>)
     (example_system\<lparr>leaderboard := [new_entry example_request 0]\<rparr>) =
     (Inl (HTTPException 400 ''Hash does not match the model details''),
      example_system\<lparr>leaderboard := [new_entry example_request 0]\<rparr>)
   \<and> list_all
        (\<lambda>r. \<exists>c fp'. regenerate_hash example_env (entry_repo_namespace r) (entry_repo_name r)
                         (entry_chat_template_type r) c = Inr fp'
                       \<and> py_int (entry_hash r) = Some fp')
        (leaderboard (snd (evaluate_model example_env (example_request\<lparr>hash := ''13''\<rparr>)
           (example_system\<lparr>leaderboard := [new_entry example_request 0]\<rparr>))))"
  using fingerprint_validation [of example_env "example_request\<lparr>hash := ''13''\<rparr>" 12
          "example_system\<lparr>leaderboard := [new_entry example_request 0]\<rparr>"]
  by (simp add: example_env_def example_request_def new_entry_def py_int_13 py_int_12
      list_all_iff)

section \<open>Startup: the columns of an existing file\<close>

lemma startup_load_ok_iff:
  "startup_load header = Inr header \<longleftrightarrow> set columns \<subseteq> set header"
  by (auto simp: startup_load_def read_csv_def list_all_iff columns_def)

lemma startup_load_cases:
  "startup_load header = Inr header \<or> (\<exists>err. startup_load header = Inl err)"
  by (auto simp: startup_load_def read_csv_def)

text \<open>
  C9, as amended. With an existing leaderboard file, startup is refused with a fatal error
  exactly when a column of the schema is missing from the file; otherwise the file is
  loaded as it is, whatever other columns it has.
\<close>

theorem startup_load_schema:
  "(startup_load header = Inr header \<longleftrightarrow> set columns \<subseteq> set header)
   \<and> ((\<exists>err. startup_load header = Inl err) \<longleftrightarrow> \<not> set columns \<subseteq> set header)"
  using startup_load_ok_iff [of header] startup_load_cases [of header] by auto

text \<open>
  The schema itself is loaded; without the column \<^verbatim>\<open>hash\<close> the process exits with
  status 1; without the column \<^verbatim>\<open>timestamp\<close> reading the file raises.
\<close>

theorem startup_load_schema_witness:
  "startup_load columns = Inr columns
   \<and> startup_load (tl columns) = Inl (SystemExit 1)
   \<and> startup_load (remove1 ''timestamp'' columns) =
       Inl (ValueError ''Missing column provided to parse_dates: timestamp'')"
  using startup_load_schema [of columns] startup_load_schema [of "tl columns"]
  by (simp add: startup_load_def read_csv_def columns_def)

text \<open>
  C9 as stated fails: a file with the twelve columns and one more is loaded, although its
  column set is not the schema.
\<close>

theorem startup_load_extra_column_counterexample:
  "startup_load (columns @ [''extra'']) = Inr (columns @ [''extra''])
   \<and> ''extra'' \<in> set (columns @ [''extra'']) \<and> ''extra'' \<notin> set columns"
  by (simp add: startup_load_def read_csv_def columns_def)

section \<open>Shutdown\<close>

lemma worker_sentinel:
  "evaluation_queue s = [None] \<Longrightarrow>
     model_evaluation_worker e s = (True, [], s\<lparr>evaluation_queue := []\<rparr>)"
  by (simp add: model_evaluation_worker_def)

lemma shutdown_eq:
  "shutdown e s =
     s\<lparr>leaderboard :=
         filter (\<lambda>r. status r \<noteq> ''QUEUED'' \<and> status r \<noteq> ''RUNNING'') (leaderboard s),
       leaderboard_file :=
         filter (\<lambda>r. status r \<noteq> ''QUEUED'' \<and> status r \<noteq> ''RUNNING'') (leaderboard s),
       evaluation_queue := []\<rparr>"
  by (simp add: shutdown_def Let_def save_leaderboard_def worker_sentinel conj_commute)

text \<open>
  C4. After a shutdown that begins while the worker waits for an item, the file holds the
  rows of the leaderboard whose status is neither QUEUED nor RUNNING, in their order and
  as they were: no QUEUED or RUNNING row is in it, and every COMPLETED or FAILED row of
  the leaderboard is. The leaderboard in memory is the same list, and the queue is empty.
\<close>

theorem shutdown_prunes:
  "leaderboard_file (shutdown e s) =
     filter (\<lambda>r. status r \<noteq> ''QUEUED'' \<and> status r \<noteq> ''RUNNING'') (leaderboard s)
   \<and> leaderboard (shutdown e s) = leaderboard_file (shutdown e s)
   \<and> evaluation_queue (shutdown e s) = []
   \<and> (\<forall>r\<in>set (leaderboard_file (shutdown e s)).
         status r \<noteq> ''QUEUED'' \<and> status r \<noteq> ''RUNNING'')
   \<and> (\<forall>r\<in>set (leaderboard s).
         status r = ''COMPLETED'' \<or> status r = ''FAILED''
         \<longrightarrow> r \<in> set (leaderboard_file (shutdown e s)))"
  by (auto simp: shutdown_eq)

text \<open>
  Of four rows, one of each status, and one job in the queue, the file keeps the
  COMPLETED and the FAILED row.
\<close>

theorem shutdown_prunes_witness:
  "leaderboard_file
     (shutdown example_env
        (example_system
           \<lparr>leaderboard := [example_row ''1'' ''QUEUED'', example_row ''2'' ''RUNNING'',
                            example_row ''3'' ''COMPLETED'', example_row ''4'' ''FAILED''],
            evaluation_queue := [Some example_request]\<rparr>)) =
     [example_row ''3'' ''COMPLETED'', example_row ''4'' ''FAILED'']"
  using shutdown_prunes [of example_env
      "example_system
           \<lparr>leaderboard := [example_row ''1'' ''QUEUED'', example_row ''2'' ''RUNNING'',
                            example_row ''3'' ''COMPLETED'', example_row ''4'' ''FAILED''],
            evaluation_queue := [Some example_request]\<rparr>"]
  by (simp add: example_row_def)

section \<open>Admission\<close>


lemma loc_update_Cons:
  "loc_update h f (r # lb) = (if entry_hash r = h then f r else r) # loc_update h f lb"
  by (simp add: loc_update_def)

lemma insert_then_fail:
  assumes "\<forall>r\<in>set (leaderboard s). entry_hash r \<noteq> hash request" and "nts \<noteq> []"
  shows "fail_and_return (hash request) nts
           (save_leaderboard (s\<lparr>leaderboard := new_entry request t # leaderboard s\<rparr>)) =
         (Inr (Some ((Some (Finite (- 1)), Some (Finite (- 1)), Some (Finite (- 1)), Some (Finite (- 1)), Some (Finite (- 1))), ''FAILED'')),
          s\<lparr>leaderboard := (new_entry request t)\<lparr>status := ''FAILED'', entry_notes := nts\<rparr>
                              # leaderboard s,
             leaderboard_file := (new_entry request t)\<lparr>status := ''FAILED'', entry_notes := nts\<rparr>
                              # leaderboard s\<rparr>)"
  using assms
  by (simp add: fail_and_return_def Let_def update_leaderboard_status_def save_leaderboard_def
      loc_update_Cons loc_update_fresh get_json_result_def new_entry_def)

lemma evaluate_model_fresh:
  assumes "py_int (hash request) = Some fp"
    and "regenerate_hash e (repo_namespace request) (repo_name request)
           (chat_template_type request) (competition_id request) = Inr fp"
    and "\<forall>r\<in>set (leaderboard s). entry_hash r \<noteq> hash request"
  shows "evaluate_model e request s =
           admission_checks e request
             (save_leaderboard (s\<lparr>leaderboard := new_entry request (clock s) # leaderboard s\<rparr>))"
  using assms by (simp add: evaluate_model_def get_json_result_None_iff [THEN iffD2])









text \<open>
  C8, as amended. A new submission with a matching fingerprint and a template outside the
  supported set gets a row; the row is set to FAILED with the note that names the template,
  it is written to the file, nothing is queued, and the call returns the row's payload.
\<close>

theorem unsupported_template_recorded:
  assumes "py_int (hash request) = Some fp"
    and "regenerate_hash e (repo_namespace request) (repo_name request)
           (chat_template_type request) (competition_id request) = Inr fp"
    and "\<forall>r\<in>set (leaderboard s). entry_hash r \<noteq> hash request"
    and "map_of chat_template_mappings (chat_template_type request) = None"
  shows "evaluate_model e request s =
     (Inr (Some ((Some (Finite (- 1)), Some (Finite (- 1)), Some (Finite (- 1)), Some (Finite (- 1)), Some (Finite (- 1))), ''FAILED'')),
      s\<lparr>leaderboard :=
           (new_entry request (clock s))
             \<lparr>status := ''FAILED'',
              entry_notes := ''Chat template type not supported: '' @ chat_template_type request\<rparr>
           # leaderboard s,
         leaderboard_file :=
           (new_entry request (clock s))
             \<lparr>status := ''FAILED'',
              entry_notes := ''Chat template type not supported: '' @ chat_template_type request\<rparr>
           # leaderboard s\<rparr>)"
  using assms(3,4)
  by (simp add: evaluate_model_fresh [OF assms(1-3)] admission_checks_def insert_then_fail)

text \<open>
  The example submission with the template \<^verbatim>\<open>gpt\<close>.
\<close>

theorem unsupported_template_recorded_witness:
  "evaluate_model example_env (example_request\<lparr>chat_template_type := ''gpt''\<rparr>) example_system =
     (Inr (Some ((Some (Finite (- 1)), Some (Finite (- 1)), Some (Finite (- 1)), Some (Finite (- 1)), Some (Finite (- 1))), ''FAILED'')),
      example_system
        \<lparr>leaderboard :=
           [(new_entry (example_request\<lparr>chat_template_type := ''gpt''\<rparr>) 0)
              \<lparr>status := ''FAILED'', entry_notes := ''Chat template type not supported: gpt''\<rparr>],
         leaderboard_file :=
           [(new_entry (example_request\<lparr>chat_template_type := ''gpt''\<rparr>) 0)
              \<lparr>status := ''FAILED'', entry_notes := ''Chat template type not supported: gpt''\<rparr>]\<rparr>)"
  using unsupported_template_recorded [of "example_request\<lparr>chat_template_type := ''gpt''\<rparr>" 12
      example_env example_system]
  by (simp add: example_env_def example_request_def example_system_def py_int_12
      chat_template_mappings_def)

text \<open>
  C8 as stated fails: for the template \<^verbatim>\<open>gpt\<close> the call returns a payload, not an error,
  and a row with the submission's hash is in the leaderboard afterwards.
\<close>

theorem unsupported_template_counterexample:
  "map_of chat_template_mappings ''gpt'' = None
   \<and> fst (evaluate_model example_env (example_request\<lparr>chat_template_type := ''gpt''\<rparr>)
          example_system) =
       Inr (Some ((Some (Finite (- 1)), Some (Finite (- 1)), Some (Finite (- 1)), Some (Finite (- 1)), Some (Finite (- 1))), ''FAILED''))
   \<and> map entry_hash
        (leaderboard (snd (evaluate_model example_env
           (example_request\<lparr>chat_template_type := ''gpt''\<rparr>) example_system))) =
       [hash (example_request\<lparr>chat_template_type := ''gpt''\<rparr>)]"
  by (simp add: evaluate_model_def admission_checks_def example_env_def example_request_def
      example_system_def py_int_12 get_json_result_def save_leaderboard_def new_entry_def
      chat_template_mappings_def fail_and_return_def update_leaderboard_status_def
      loc_update_def Let_def)

lemma admission_checks_queue:
  assumes "evaluation_queue (snd (admission_checks e request s)) \<noteq> evaluation_queue s"
  shows "\<exists>size m.
           check_model_repo_size e (hash request) (repo_namespace request) (repo_name request)
             = Inr (Some size)
           \<and> MIN_REPO_SIZE \<le> size \<and> size \<le> MAX_REPO_SIZE
           \<and> get_model_size e (repo_namespace request) (repo_name request) = Inr (Some m)
           \<and> m div 4 \<le> MAX_MODEL_SIZE
           \<and> map_of chat_template_mappings (chat_template_type request) \<noteq> None
           \<and> evaluation_queue (snd (admission_checks e request s)) =
               evaluation_queue s @ [Some request]"
  using assms unfolding admission_checks_def
  by (auto split: sum.splits option.splits if_splits
      simp: Let_def fail_and_return_def update_leaderboard_status_simps)

lemma evaluate_model_queue:
  assumes "evaluation_queue (snd (evaluate_model e request s)) \<noteq> evaluation_queue s"
  shows "\<exists>size m.
           check_model_repo_size e (hash request) (repo_namespace request) (repo_name request)
             = Inr (Some size)
           \<and> MIN_REPO_SIZE \<le> size \<and> size \<le> MAX_REPO_SIZE
           \<and> get_model_size e (repo_namespace request) (repo_name request) = Inr (Some m)
           \<and> m div 4 \<le> MAX_MODEL_SIZE
           \<and> map_of chat_template_mappings (chat_template_type request) \<noteq> None
           \<and> evaluation_queue (snd (evaluate_model e request s)) =
               evaluation_queue s @ [Some request]"
proof -
  from assms have eq: "evaluate_model e request s =
      admission_checks e request
        (save_leaderboard (s\<lparr>leaderboard := new_entry request (clock s) # leaderboard s\<rparr>))"
    by (auto simp: evaluate_model_def split: option.splits sum.splits if_splits)
  from assms admission_checks_queue [of e request
      "save_leaderboard (s\<lparr>leaderboard := new_entry request (clock s) # leaderboard s\<rparr>)"]
  show ?thesis
    unfolding eq by (simp add: save_leaderboard_def)
qed

text \<open>
  C5. For a new submission with a matching fingerprint and a supported template: when the
  lookup of the repository size raises or finds nothing, when the size is outside
  \<open>MIN_REPO_SIZE\<close> to \<open>MAX_REPO_SIZE\<close>, when the declared model size is not found, or
  when a quarter of it is above \<open>MAX_MODEL_SIZE\<close>, the inserted row is FAILED with the note
  of that check, the payload returned has the status FAILED, and the queue is as before.
  When the sizes pass, the job is appended to the queue and the payload returned has the
  status QUEUED. The queue changes only when the sizes pass.
\<close>

theorem admission_gate:
  fixes e :: env and request :: EvaluateModelRequest and s :: system
  defines "inserted \<equiv> new_entry request (clock s)"
  defines "rejected \<equiv>
    (\<lambda>nts. (Inr (Some ((Some (Finite (- 1)), Some (Finite (- 1)), Some (Finite (- 1)), Some (Finite (- 1)), Some (Finite (- 1))), ''FAILED''))
               :: error + json_result option,
            s\<lparr>leaderboard := inserted\<lparr>status := ''FAILED'', entry_notes := nts\<rparr> # leaderboard s,
              leaderboard_file :=
                inserted\<lparr>status := ''FAILED'', entry_notes := nts\<rparr> # leaderboard s\<rparr>))"
  assumes int: "py_int (hash request) = Some fp"
    and fp: "regenerate_hash e (repo_namespace request) (repo_name request)
               (chat_template_type request) (competition_id request) = Inr fp"
    and fresh: "\<forall>r\<in>set (leaderboard s). entry_hash r \<noteq> hash request"
    and template: "map_of chat_template_mappings (chat_template_type request) \<noteq> None"
  shows
    "(\<forall>msg. check_model_repo_size e (hash request) (repo_namespace request) (repo_name request)
              = Inl msg
        \<longrightarrow> evaluate_model e request s = rejected (''Error checking model repo size: '' @ msg))
     \<and> (check_model_repo_size e (hash request) (repo_namespace request) (repo_name request)
           = Inr None
        \<longrightarrow> evaluate_model e request s =
              rejected ''Error checking model repo size. Make sure the model repository exists and is accessible.'')
     \<and> (\<forall>size. check_model_repo_size e (hash request) (repo_namespace request)
                  (repo_name request) = Inr (Some size)
               \<and> (size > MAX_REPO_SIZE \<or> size < MIN_REPO_SIZE)
        \<longrightarrow> evaluate_model e request s =
              rejected (''Model repo size is not up to requirments: '' @ str_int size
                        @ '' bytes. Should be less than '' @ str_int MAX_REPO_SIZE
                        @ '' bytes and greater than '' @ str_int MIN_REPO_SIZE @ '' bytes''))
     \<and> (\<forall>size. check_model_repo_size e (hash request) (repo_namespace request)
                  (repo_name request) = Inr (Some size)
               \<and> MIN_REPO_SIZE \<le> size \<and> size \<le> MAX_REPO_SIZE
               \<and> get_model_size e (repo_namespace request) (repo_name request) = Inr None
        \<longrightarrow> evaluate_model e request s =
              rejected ''Error getting model size. Make sure the model.index.safetensors.json file exists in the model repository. And it has the metadata->total_size field.'')
     \<and> (\<forall>size m. check_model_repo_size e (hash request) (repo_namespace request)
                    (repo_name request) = Inr (Some size)
                 \<and> MIN_REPO_SIZE \<le> size \<and> size \<le> MAX_REPO_SIZE
                 \<and> get_model_size e (repo_namespace request) (repo_name request) = Inr (Some m)
                 \<and> m div 4 > MAX_MODEL_SIZE
        \<longrightarrow> evaluate_model e request s =
              rejected (''Model size is too large: '' @ str_int m
                        @ '' bytes. Should be less than '' @ str_int MAX_MODEL_SIZE @ '' bytes''))
     \<and> (\<forall>size m. check_model_repo_size e (hash request) (repo_namespace request)
                    (repo_name request) = Inr (Some size)
                 \<and> MIN_REPO_SIZE \<le> size \<and> size \<le> MAX_REPO_SIZE
                 \<and> get_model_size e (repo_namespace request) (repo_name request) = Inr (Some m)
                 \<and> m div 4 \<le> MAX_MODEL_SIZE
        \<longrightarrow> evaluate_model e request s =
              (Inr (Some ((Some (Finite (- 1)), Some (Finite (- 1)), Some (Finite (- 1)), Some (Finite (- 1)), Some (Finite (- 1))),
                          ''QUEUED'')),
               s\<lparr>leaderboard := inserted # leaderboard s,
                 leaderboard_file := inserted # leaderboard s,
                 evaluation_queue := evaluation_queue s @ [Some request]\<rparr>))
     \<and> (evaluation_queue (snd (evaluate_model e request s)) \<noteq> evaluation_queue s
        \<longrightarrow> (\<exists>size m. check_model_repo_size e (hash request) (repo_namespace request)
                         (repo_name request) = Inr (Some size)
                      \<and> MIN_REPO_SIZE \<le> size \<and> size \<le> MAX_REPO_SIZE
                      \<and> get_model_size e (repo_namespace request) (repo_name request)
                          = Inr (Some m)
                      \<and> m div 4 \<le> MAX_MODEL_SIZE))"
proof -
  note start = evaluate_model_fresh [OF int fp fresh]
  have tmpl: "(map_of chat_template_mappings (chat_template_type request) = None) = False"
    using template by simp
  have a: "evaluate_model e request s = rejected (''Error checking model repo size: '' @ msg)"
    if "check_model_repo_size e (hash request) (repo_namespace request) (repo_name request)
          = Inl msg" for msg
    using that fresh
    by (simp add: start admission_checks_def tmpl insert_then_fail rejected_def inserted_def)
  have b: "evaluate_model e request s =
      rejected ''Error checking model repo size. Make sure the model repository exists and is accessible.''"
    if "check_model_repo_size e (hash request) (repo_namespace request) (repo_name request)
          = Inr None"
    using that fresh
    by (simp add: start admission_checks_def tmpl insert_then_fail rejected_def inserted_def)
  have c: "evaluate_model e request s =
              rejected (''Model repo size is not up to requirments: '' @ str_int size
                        @ '' bytes. Should be less than '' @ str_int MAX_REPO_SIZE
                        @ '' bytes and greater than '' @ str_int MIN_REPO_SIZE @ '' bytes'')"
    if "check_model_repo_size e (hash request) (repo_namespace request) (repo_name request)
          = Inr (Some size) \<and> (size > MAX_REPO_SIZE \<or> size < MIN_REPO_SIZE)" for size
  proof -
    from that have bad: "(MAX_REPO_SIZE < size \<or> size < MIN_REPO_SIZE) = True" by simp
    from that fresh show ?thesis
      by (simp only: start admission_checks_def tmpl bad if_False if_True sum.case option.case)
        (simp add: insert_then_fail rejected_def inserted_def)
  qed
  have c2: "evaluate_model e request s =
      rejected ''Error getting model size. Make sure the model.index.safetensors.json file exists in the model repository. And it has the metadata->total_size field.''"
    if "check_model_repo_size e (hash request) (repo_namespace request) (repo_name request)
          = Inr (Some size)
        \<and> MIN_REPO_SIZE \<le> size \<and> size \<le> MAX_REPO_SIZE
        \<and> get_model_size e (repo_namespace request) (repo_name request) = Inr None" for size
  proof -
    from that have ok: "(MAX_REPO_SIZE < size \<or> size < MIN_REPO_SIZE) = False" by auto
    from that fresh show ?thesis
      by (simp only: start admission_checks_def tmpl ok if_False if_True sum.case option.case)
        (simp add: insert_then_fail rejected_def inserted_def)
  qed
  have d: "evaluate_model e request s =
              rejected (''Model size is too large: '' @ str_int m
                        @ '' bytes. Should be less than '' @ str_int MAX_MODEL_SIZE @ '' bytes'')"
    if "check_model_repo_size e (hash request) (repo_namespace request) (repo_name request)
          = Inr (Some size)
        \<and> MIN_REPO_SIZE \<le> size \<and> size \<le> MAX_REPO_SIZE
        \<and> get_model_size e (repo_namespace request) (repo_name request) = Inr (Some m)
        \<and> m div 4 > MAX_MODEL_SIZE" for size m
  proof -
    from that have ok: "(MAX_REPO_SIZE < size \<or> size < MIN_REPO_SIZE) = False" by auto
    from that have big: "(MAX_MODEL_SIZE < m div 4) = True" by simp
    from that fresh show ?thesis
      by (simp only: start admission_checks_def tmpl ok big if_False if_True sum.case
          option.case)
        (simp add: insert_then_fail rejected_def inserted_def)
  qed
  have f: "evaluate_model e request s =
              (Inr (Some ((Some (Finite (- 1)), Some (Finite (- 1)), Some (Finite (- 1)), Some (Finite (- 1)), Some (Finite (- 1))),
                          ''QUEUED'')),
               s\<lparr>leaderboard := inserted # leaderboard s,
                 leaderboard_file := inserted # leaderboard s,
                 evaluation_queue := evaluation_queue s @ [Some request]\<rparr>)"
    if "check_model_repo_size e (hash request) (repo_namespace request) (repo_name request)
          = Inr (Some size)
        \<and> MIN_REPO_SIZE \<le> size \<and> size \<le> MAX_REPO_SIZE
        \<and> get_model_size e (repo_namespace request) (repo_name request) = Inr (Some m)
        \<and> m div 4 \<le> MAX_MODEL_SIZE" for size m
  proof -
    from that have ok: "(MAX_REPO_SIZE < size \<or> size < MIN_REPO_SIZE) = False" by auto
    from that have small: "(MAX_MODEL_SIZE < m div 4) = False" by simp
    from that show ?thesis
      by (simp only: start admission_checks_def tmpl ok small if_False if_True sum.case
          option.case)
        (simp add: inserted_def Let_def save_leaderboard_def get_json_result_def new_entry_def)
  qed
  have g: "\<exists>size m. check_model_repo_size e (hash request) (repo_namespace request)
                         (repo_name request) = Inr (Some size)
                      \<and> MIN_REPO_SIZE \<le> size \<and> size \<le> MAX_REPO_SIZE
                      \<and> get_model_size e (repo_namespace request) (repo_name request)
                          = Inr (Some m)
                      \<and> m div 4 \<le> MAX_MODEL_SIZE"
    if "evaluation_queue (snd (evaluate_model e request s)) \<noteq> evaluation_queue s"
    using evaluate_model_queue [OF that] by blast
  show ?thesis
    by (intro conjI allI impI) (fact a b c c2 d f g)+
qed

lemma str_int_numerals:
  "str_int 85899345920 = ''85899345920''"
  "str_int 10485760 = ''10485760''"
  "str_int 5242880 = ''5242880''"
  by (simp_all add: str_int_def str_nat.simps)

text \<open>
  A repository of 5 MiB is refused with the note that names the bounds and nothing is
  queued; the example submission, of 50 MiB, is queued.
\<close>

theorem admission_gate_witness:
  "evaluate_model
     (example_env\<lparr>check_model_repo_size := (\<lambda>h namespace name. Inr (Some (5 * 1024 * 1024)))\<rparr>)
     example_request example_system =
     (Inr (Some ((Some (Finite (- 1)), Some (Finite (- 1)), Some (Finite (- 1)), Some (Finite (- 1)), Some (Finite (- 1))), ''FAILED'')),
      example_system
        \<lparr>leaderboard :=
           [(new_entry example_request 0)
              \<lparr>status := ''FAILED'',
               entry_notes := ''Model repo size is not up to requirments: 5242880 bytes. Should be less than 85899345920 bytes and greater than 10485760 bytes''\<rparr>],
         leaderboard_file :=
           [(new_entry example_request 0)
              \<lparr>status := ''FAILED'',
               entry_notes := ''Model repo size is not up to requirments: 5242880 bytes. Should be less than 85899345920 bytes and greater than 10485760 bytes''\<rparr>]\<rparr>)
   \<and> evaluate_model example_env example_request example_system =
     (Inr (Some ((Some (Finite (- 1)), Some (Finite (- 1)), Some (Finite (- 1)), Some (Finite (- 1)), Some (Finite (- 1))), ''QUEUED'')),
      example_system\<lparr>leaderboard := [new_entry example_request 0],
                     leaderboard_file := [new_entry example_request 0],
                     evaluation_queue := [Some example_request]\<rparr>)"
  using admission_gate [of example_request 12
      "example_env\<lparr>check_model_repo_size := (\<lambda>h namespace name. Inr (Some (5 * 1024 * 1024)))\<rparr>"
      example_system]
    admission_gate [of example_request 12 example_env example_system]
  by (simp add: example_env_def example_request_def example_system_def py_int_12
      chat_template_mappings_def str_int_numerals MAX_REPO_SIZE_def MIN_REPO_SIZE_def
      MAX_MODEL_SIZE_def)

section \<open>The retry loop\<close>

lemma send_time_mono: "i \<le> k \<Longrightarrow> send_time post start i \<le> send_time post start k"
  by (induction k) (auto simp: le_Suc_eq)

lemma return_time_mono: "j \<le> k \<Longrightarrow> return_time post start j \<le> return_time post start k"
proof (cases "j = k")
  case True
  then show ?thesis by simp
next
  case False
  assume "j \<le> k"
  with False have "Suc j \<le> k" by simp
  from send_time_mono [OF this, of post start] show ?thesis
    by (simp add: return_time_def)
qed

lemma retry_loop_success:
  assumes "snd (post k) = Returned r" and "status_code r = 200"
    and "\<forall>j<k. \<not> succeeded (snd (post j)) \<and> return_time post start j \<le> start + 30000"
    and "i \<le> k"
  shows "retry_loop api post start (send_time post start i) i (held_before post i) =
           (Inr r, return_time post start k)"
  using assms(4)
proof (induction "k - i" arbitrary: i)
  case 0
  then have "i = k" by simp
  with assms(1,2) show ?case
    by (subst retry_loop.simps) (simp add: return_time_def)
next
  case (Suc d)
  then have lt: "i < k" and d: "d = k - Suc i" and le: "Suc i \<le> k" by simp_all
  from assms(3) lt have nots: "\<not> succeeded (snd (post i))"
    and intime: "return_time post start i \<le> start + 30000" by simp_all
  from Suc.hyps(1) [OF d le] have IH:
    "retry_loop api post start (send_time post start (Suc i)) (Suc i) (held_before post (Suc i)) =
       (Inr r, return_time post start k)" .
  from intime have nodead: "\<not> (send_time post start i + fst (post i) - start > 30000)"
    by (simp add: return_time_def)
  show ?case
  proof (cases "snd (post i)")
    case (Returned r')
    with nots have "status_code r' \<noteq> 200" by (simp add: succeeded_def)
    with Returned nodead IH show ?thesis
      by (subst retry_loop.simps) (simp add: Let_def)
  next
    case (Failed e)
    with nodead IH show ?thesis
      by (subst retry_loop.simps) (simp add: Let_def)
  qed
qed





lemma call_scoring_api_response:
  assumes "snd (post k) = Returned r" and "status_code r = 200"
    and "\<forall>j<k. \<not> succeeded (snd (post j)) \<and> return_time post (clock s) j \<le> clock s + 30000"
  shows "call_scoring_api api port post h s =
           (Inr r, s\<lparr>clock := return_time post (clock s) k,
                     shutdown_posts := shutdown_posts s @ [port]\<rparr>)"
  using retry_loop_success [OF assms, of 0 api]
  by (simp add: call_scoring_api_def post_shutdown_def)

lemma call_scoring_api_success:
  assumes "snd (post k) = Returned r" and "status_code r = 200"
    and "\<forall>j<k. \<not> succeeded (snd (post j))"
    and "return_time post (clock s) k \<le> clock s + 30000"
  shows "call_scoring_api api port post h s =
           (Inr r, s\<lparr>clock := return_time post (clock s) k,
                     shutdown_posts := shutdown_posts s @ [port]\<rparr>)"
proof -
  have "\<forall>j<k. \<not> succeeded (snd (post j)) \<and> return_time post (clock s) j \<le> clock s + 30000"
  proof (intro allI impI conjI)
    fix j assume "j < k"
    with assms(3) show "\<not> succeeded (snd (post j))" by simp
    from \<open>j < k\<close> return_time_mono [of j k post "clock s"] assms(4)
    show "return_time post (clock s) j \<le> clock s + 30000" by simp
  qed
  from retry_loop_success [OF assms(1,2) this, of 0 api] show ?thesis
    by (simp add: call_scoring_api_def post_shutdown_def)
qed








section \<open>The example job\<close>

lemma send_time_instant:
  "\<forall>j<k. fst (post j) = 0 \<Longrightarrow> send_time post start k = start + 1000 * k"
  by (induction k) simp_all

lemma example_eval_phase:
  "call_scoring_api ''eval_score'' EVAL_SCORE_PORT (eval_score_api example_env request) h s =
     (Inr \<lparr>status_code = 200, content = ''scores'',
           json = Some (map_of [(''eval_score'', Some (Finite (1 / 2))),
                                (''latency_score'', Some (round_double (4 / 5))),
                                (''model_size_score'', Some (Finite 1))])\<rparr>,
      s\<lparr>clock := clock s + 29000, shutdown_posts := shutdown_posts s @ [8001]\<rparr>)"
proof -
  let ?post = "eval_score_api example_env request"
  have t: "return_time ?post (clock s) 29 = clock s + 29000"
    by (simp add: return_time_def send_time_instant example_env_def)
  have "call_scoring_api ''eval_score'' EVAL_SCORE_PORT ?post h s =
     (Inr \<lparr>status_code = 200, content = ''scores'',
           json = Some (map_of [(''eval_score'', Some (Finite (1 / 2))),
                                (''latency_score'', Some (round_double (4 / 5))),
                                (''model_size_score'', Some (Finite 1))])\<rparr>,
      s\<lparr>clock := return_time ?post (clock s) 29,
        shutdown_posts := shutdown_posts s @ [EVAL_SCORE_PORT]\<rparr>)"
    by (rule call_scoring_api_success [where k = 29])
      (simp_all add: t, simp_all add: example_env_def succeeded_def)
  then show ?thesis by (simp add: t EVAL_SCORE_PORT_def)
qed

lemma example_vibe_phase:
  "call_scoring_api ''vibe_score'' VIBE_SCORE_PORT (vibe_score_api example_env request) h s =
     (Inr \<lparr>status_code = 200, content = ''vibe'',
           json = Some (map_of [(''vibe_score'', Some (round_double (9 / 10)))])\<rparr>,
      s\<lparr>clock := clock s, shutdown_posts := shutdown_posts s @ [8002]\<rparr>)"
proof -
  let ?post = "vibe_score_api example_env request"
  have t: "return_time ?post (clock s) 0 = clock s"
    by (simp add: return_time_def example_env_def)
  have "call_scoring_api ''vibe_score'' VIBE_SCORE_PORT ?post h s =
     (Inr \<lparr>status_code = 200, content = ''vibe'',
           json = Some (map_of [(''vibe_score'', Some (round_double (9 / 10)))])\<rparr>,
      s\<lparr>clock := return_time ?post (clock s) 0,
        shutdown_posts := shutdown_posts s @ [VIBE_SCORE_PORT]\<rparr>)"
    by (rule call_scoring_api_success [where k = 0])
      (simp_all add: t, simp_all add: example_env_def)
  then show ?thesis by (simp add: t VIBE_SCORE_PORT_def)
qed

text \<open>The literals, products and sums of the example, each rounded once.\<close>

lemma literal_006: "round_double (6 / 100) = Finite (1080863910568919 / 18014398509481984)"
  by code_simp

lemma literal_082: "round_double (82 / 100) = Finite (7385903388887613 / 9007199254740992)"
  by code_simp

lemma literal_08: "round_double (4 / 5) = Finite (3602879701896397 / 4503599627370496)"
  by code_simp

lemma literal_09: "round_double (9 / 10) = Finite (8106479329266893 / 9007199254740992)"
  by code_simp

lemma literal_0572: "round_double (143 / 250) = Finite (5152117973711847 / 9007199254740992)"
  by code_simp

lemma product_size:
  "fmul (Finite 1) (Finite (1080863910568919 / 18014398509481984)) =
     Finite (1080863910568919 / 18014398509481984)"
  by code_simp

lemma product_quality:
  "fmul (Finite (1 / 2)) (Finite (7385903388887613 / 9007199254740992)) =
     Finite (7385903388887613 / 18014398509481984)"
  by code_simp

lemma product_latency:
  "fmul (Finite (3602879701896397 / 4503599627370496))
     (Finite (1080863910568919 / 18014398509481984)) =
     Finite (3458764513820541 / 72057594037927936)"
  by code_simp

lemma product_vibe:
  "fmul (Finite (8106479329266893 / 9007199254740992))
     (Finite (1080863910568919 / 18014398509481984)) =
     Finite (7782220156096217 / 144115188075855872)"
  by code_simp

lemma sum_first:
  "fadd (Finite (1080863910568919 / 18014398509481984))
     (Finite (7385903388887613 / 18014398509481984)) =
     Finite (2116691824864133 / 4503599627370496)"
  by code_simp

lemma sum_second:
  "fadd (Finite (2116691824864133 / 4503599627370496))
     (Finite (3458764513820541 / 72057594037927936)) =
     Finite (2332864606977917 / 4503599627370496)"
  by code_simp

lemma sum_third:
  "fadd (Finite (2332864606977917 / 4503599627370496))
     (Finite (7782220156096217 / 144115188075855872)) =
     Finite (644014746713981 / 1125899906842624)"
  by code_simp

lemma example_sum:
  "fadd
     (fadd
        (fadd (fmul (Finite 1) (round_double (6 / 100)))
              (fmul (Finite (1 / 2)) (round_double (82 / 100))))
        (fmul (round_double (4 / 5)) (round_double (6 / 100))))
     (fmul (round_double (9 / 10)) (round_double (6 / 100))) =
     Finite (644014746713981 / 1125899906842624)"
  by (simp only: literal_006 literal_082 literal_08 literal_09 product_size product_quality
      product_latency product_vibe sum_first sum_second sum_third)

lemma example_total:
  "compute_total_score (Finite 1) (Finite (1 / 2)) (round_double (4 / 5))
     (round_double (9 / 10)) = Finite (644014746713981 / 1125899906842624)"
  unfolding compute_total_score_def MODEL_SIZE_SCORE_WEIGHT_def QUALITATIVE_SCORE_WEIGHT_def
    LATENCY_SCORE_WEIGHT_def VIBE_SCORE_WEIGHT_def
  by (rule example_sum)

lemma example_job:
  "evaluate_model_logic example_env example_request example_queued =
     (Inr (Finite 1, Finite (1 / 2), round_double (4 / 5), round_double (9 / 10),
           Finite (644014746713981 / 1125899906842624)),
      \<lparr>leaderboard =
         [(new_entry example_request 0)
            \<lparr>model_size_score := Some (Finite 1), qualitative_score := Some (Finite (1 / 2)),
             latency_score := Some (round_double (4 / 5)), vibe_score := Some (round_double (9 / 10)),
             total_score := Some (Finite (644014746713981 / 1125899906842624)), status := ''COMPLETED''\<rparr>],
       leaderboard_file =
         [(new_entry example_request 0)
            \<lparr>model_size_score := Some (Finite 1), qualitative_score := Some (Finite (1 / 2)),
             latency_score := Some (round_double (4 / 5)), status := ''RUNNING'',
             entry_notes := ''Now computing vibe score''\<rparr>],
       evaluation_queue = [Some example_request], clock = 29000,
       shutdown_posts = [8001, 8002]\<rparr>)"
  by (simp add: evaluate_model_logic_def Let_def example_eval_phase example_vibe_phase
      write_partial_scores_def read_vibe_score_def py_float_def final_update_def
      update_leaderboard_status_def save_leaderboard_def loc_update_def example_total
      example_queued_def example_request_def new_entry_def)
    (simp add: example_env_def loc_update_def example_total)

lemma slow_eval_phase:
  "call_scoring_api ''eval_score'' EVAL_SCORE_PORT (eval_score_api slow_env request) h s =
     (Inr \<lparr>status_code = 200, content = ''scores'',
           json = Some (map_of [(''eval_score'', Some (Finite (1 / 2))),
                                (''latency_score'', Some (round_double (4 / 5))),
                                (''model_size_score'', Some (Finite 1))])\<rparr>,
      s\<lparr>clock := clock s + 45000, shutdown_posts := shutdown_posts s @ [8001]\<rparr>)"
proof -
  let ?post = "eval_score_api slow_env request"
  have t: "return_time ?post (clock s) 0 = clock s + 45000"
    by (simp add: return_time_def slow_env_def)
  have "call_scoring_api ''eval_score'' EVAL_SCORE_PORT ?post h s =
     (Inr \<lparr>status_code = 200, content = ''scores'',
           json = Some (map_of [(''eval_score'', Some (Finite (1 / 2))),
                                (''latency_score'', Some (round_double (4 / 5))),
                                (''model_size_score'', Some (Finite 1))])\<rparr>,
      s\<lparr>clock := return_time ?post (clock s) 0,
        shutdown_posts := shutdown_posts s @ [EVAL_SCORE_PORT]\<rparr>)"
    by (rule call_scoring_api_response [where k = 0]) (simp_all add: slow_env_def)
  then show ?thesis by (simp add: t EVAL_SCORE_PORT_def)
qed

lemma slow_job:
  "evaluate_model_logic slow_env example_request example_queued =
     (Inr (Finite 1, Finite (1 / 2), round_double (4 / 5), round_double (9 / 10),
           Finite (644014746713981 / 1125899906842624)),
      \<lparr>leaderboard =
         [(new_entry example_request 0)
            \<lparr>model_size_score := Some (Finite 1), qualitative_score := Some (Finite (1 / 2)),
             latency_score := Some (round_double (4 / 5)), vibe_score := Some (round_double (9 / 10)),
             total_score := Some (Finite (644014746713981 / 1125899906842624)), status := ''COMPLETED''\<rparr>],
       leaderboard_file =
         [(new_entry example_request 0)
            \<lparr>model_size_score := Some (Finite 1), qualitative_score := Some (Finite (1 / 2)),
             latency_score := Some (round_double (4 / 5)), status := ''RUNNING'',
             entry_notes := ''Now computing vibe score''\<rparr>],
       evaluation_queue = [Some example_request], clock = 45000,
       shutdown_posts = [8001, 8002]\<rparr>)"
proof -
  have vibe: "vibe_score_api slow_env = vibe_score_api example_env"
    and update: "final_update_failure slow_env = (\<lambda>request. None)"
    by (simp_all add: slow_env_def example_env_def)
  show ?thesis
    by (simp add: evaluate_model_logic_def Let_def vibe update slow_eval_phase
        example_vibe_phase write_partial_scores_def read_vibe_score_def py_float_def
        final_update_def update_leaderboard_status_def save_leaderboard_def loc_update_def
        example_total example_queued_def example_request_def new_entry_def)
qed





text \<open>
  C6 as stated fails: for the scores \<^verbatim>\<open>1.0, 0.5, 0.8, 0.9\<close> the total the job returns is not
  0.572, neither the number nor the double that the literal \<^verbatim>\<open>0.572\<close> denotes
  (\<^verbatim>\<open>0x1.24dd2f1a9fbe7p-1\<close>): it is one unit in the last place above.
\<close>

theorem weighted_total_counterexample:
  "fst (evaluate_model_logic example_env example_request example_queued) =
     Inr (Finite 1, Finite (1 / 2), round_double (4 / 5), round_double (9 / 10),
          Finite (644014746713981 / 1125899906842624))
   \<and> round_double (143 / 250) = Finite (5152117973711847 / 9007199254740992)
   \<and> Finite (644014746713981 / 1125899906842624) \<noteq> round_double (143 / 250)
   \<and> (644014746713981 / 1125899906842624 :: rat) \<noteq> 143 / 250"
  by (simp add: example_job literal_0572)

text \<open>
  C7, at an input where the code does not do what the claim says. The final update of the
  example job raises. The worker catches the exception the job ends with, goes on to the
  sentinel and leaves its loop; but that exception is the \<^verbatim>\<open>AttributeError\<close> of the handler,
  and the row is still RUNNING with the note of the second phase, in memory and in the
  file, not FAILED with the text of the failure.
\<close>

theorem final_update_failure_at_example:
  "model_evaluation_worker update_fails_env
     (example_queued\<lparr>evaluation_queue := [Some example_request, None]\<rparr>) =
     (True, [AttributeError ''str object has no attribute leaderboard''],
      \<lparr>leaderboard =
         [(new_entry example_request 0)
            \<lparr>model_size_score := Some (Finite 1), qualitative_score := Some (Finite (1 / 2)),
             latency_score := Some (round_double (4 / 5)), status := ''RUNNING'',
             entry_notes := ''Now computing vibe score''\<rparr>],
       leaderboard_file =
         [(new_entry example_request 0)
            \<lparr>model_size_score := Some (Finite 1), qualitative_score := Some (Finite (1 / 2)),
             latency_score := Some (round_double (4 / 5)), status := ''RUNNING'',
             entry_notes := ''Now computing vibe score''\<rparr>],
       evaluation_queue = [], clock = 29000, shutdown_posts = [8001, 8002]\<rparr>)"
proof -
  have eval: "eval_score_api update_fails_env = eval_score_api example_env"
    and vibe: "vibe_score_api update_fails_env = vibe_score_api example_env"
    and fails: "final_update_failure update_fails_env = (\<lambda>request. Some ''connection lost'')"
    by (simp_all add: update_fails_env_def)
  show ?thesis
    by (simp add: model_evaluation_worker_def evaluate_model_logic_def Let_def eval vibe fails
        example_eval_phase example_vibe_phase
        write_partial_scores_def read_vibe_score_def py_float_def final_update_def
        update_leaderboard_status_with_def
        update_leaderboard_status_def save_leaderboard_def loc_update_def
        example_queued_def example_request_def new_entry_def)
qed

text \<open>
  C10, at an input where the code does not do what the claim says. The second service
  answers \<^verbatim>\<open>{"vibe_score": null}\<close>. The job raises at the check of line 236 and no
  COMPLETED update is written; but the row is still RUNNING with the note of the second
  phase, not FAILED.
\<close>

theorem unset_vibe_score_at_example:
  "evaluate_model_logic vibe_null_env example_request example_queued =
     (Inl (HTTPException 500 ''Error calculating scores, one or more scores are None''),
      \<lparr>leaderboard =
         [(new_entry example_request 0)
            \<lparr>model_size_score := Some (Finite 1), qualitative_score := Some (Finite (1 / 2)),
             latency_score := Some (round_double (4 / 5)), status := ''RUNNING'',
             entry_notes := ''Now computing vibe score''\<rparr>],
       leaderboard_file =
         [(new_entry example_request 0)
            \<lparr>model_size_score := Some (Finite 1), qualitative_score := Some (Finite (1 / 2)),
             latency_score := Some (round_double (4 / 5)), status := ''RUNNING'',
             entry_notes := ''Now computing vibe score''\<rparr>],
       evaluation_queue = [Some example_request], clock = 29000,
       shutdown_posts = [8001, 8002]\<rparr>)"
proof -
  have eval: "eval_score_api vibe_null_env = eval_score_api example_env"
    by (simp add: vibe_null_env_def)
  have vibe: "call_scoring_api ''vibe_score'' VIBE_SCORE_PORT
                (vibe_score_api vibe_null_env request) h s =
     (Inr \<lparr>status_code = 200, content = ''vibe'',
           json = Some (map_of [(''vibe_score'', None)])\<rparr>,
      s\<lparr>clock := clock s, shutdown_posts := shutdown_posts s @ [8002]\<rparr>)" for h s request
  proof -
    let ?post = "vibe_score_api vibe_null_env request"
    have t: "return_time ?post (clock s) 0 = clock s"
      by (simp add: return_time_def vibe_null_env_def)
    have "call_scoring_api ''vibe_score'' VIBE_SCORE_PORT ?post h s =
       (Inr \<lparr>status_code = 200, content = ''vibe'',
             json = Some (map_of [(''vibe_score'', None)])\<rparr>,
        s\<lparr>clock := return_time ?post (clock s) 0,
          shutdown_posts := shutdown_posts s @ [VIBE_SCORE_PORT]\<rparr>)"
      by (rule call_scoring_api_success [where k = 0])
        (simp_all add: t, simp_all add: vibe_null_env_def)
    then show ?thesis by (simp add: t VIBE_SCORE_PORT_def)
  qed
  show ?thesis
    by (simp add: evaluate_model_logic_def Let_def eval vibe example_eval_phase
        write_partial_scores_def read_vibe_score_def py_float_def
        update_leaderboard_status_def save_leaderboard_def loc_update_def
        example_queued_def example_request_def new_entry_def)
qed

section \<open>The retry and restart protocol\<close>




text \<open>
  C3 as stated fails: the first service answers its first POST with the status 200 after
  45 seconds. More than 30 seconds have elapsed since the first attempt, and the row is
  not set to FAILED: the phase yields the response at 45 seconds, the job goes on to the
  second phase and its row is COMPLETED.
\<close>

theorem late_success_counterexample:
  "call_scoring_api ''eval_score'' EVAL_SCORE_PORT (eval_score_api slow_env example_request)
     ''12'' example_queued =
     (Inr \<lparr>status_code = 200, content = ''scores'',
           json = Some (map_of [(''eval_score'', Some (Finite (1 / 2))),
                                (''latency_score'', Some (round_double (4 / 5))),
                                (''model_size_score'', Some (Finite 1))])\<rparr>,
      example_queued\<lparr>clock := 45000, shutdown_posts := [8001]\<rparr>)
   \<and> evaluate_model_logic slow_env example_request example_queued =
     (Inr (Finite 1, Finite (1 / 2), round_double (4 / 5), round_double (9 / 10),
           Finite (644014746713981 / 1125899906842624)),
      \<lparr>leaderboard =
         [(new_entry example_request 0)
            \<lparr>model_size_score := Some (Finite 1), qualitative_score := Some (Finite (1 / 2)),
             latency_score := Some (round_double (4 / 5)), vibe_score := Some (round_double (9 / 10)),
             total_score := Some (Finite (644014746713981 / 1125899906842624)), status := ''COMPLETED''\<rparr>],
       leaderboard_file =
         [(new_entry example_request 0)
            \<lparr>model_size_score := Some (Finite 1), qualitative_score := Some (Finite (1 / 2)),
             latency_score := Some (round_double (4 / 5)), status := ''RUNNING'',
             entry_notes := ''Now computing vibe score''\<rparr>],
       evaluation_queue = [Some example_request], clock = 45000,
       shutdown_posts = [8001, 8002]\<rparr>)"
proof (rule conjI)
  show "call_scoring_api ''eval_score'' EVAL_SCORE_PORT (eval_score_api slow_env example_request)
     ''12'' example_queued =
     (Inr \<lparr>status_code = 200, content = ''scores'',
           json = Some (map_of [(''eval_score'', Some (Finite (1 / 2))),
                                (''latency_score'', Some (round_double (4 / 5))),
                                (''model_size_score'', Some (Finite 1))])\<rparr>,
      example_queued\<lparr>clock := 45000, shutdown_posts := [8001]\<rparr>)"
    by (simp add: slow_eval_phase example_queued_def)
qed (rule slow_job)

end
